theory Spec2Isabelle
  imports Main
begin

section \<open>Character pairs of a language configuration\<close>

text \<open>
  The test suite \<^verbatim>\<open>characterPair.test.ts\<close> exercises the class
  \<^verbatim>\<open>CharacterPairSupport\<close>, the class \<^verbatim>\<open>StandardAutoClosingPairConditional\<close> and
  the helper \<^verbatim>\<open>createFakeScopedLineTokens\<close>. Their implementation files are not part of
  the sources at hand, so the definitions of this section follow the specification's
  description, and every assertion of the test suite is replayed on them below.
\<close>

subsection \<open>Data\<close>

text \<open>The scope types the specification names: string, comment, other.\<close>

datatype StandardTokenType = Other | Comment | String

text \<open>A raw token of the tests: \<^verbatim>\<open>{ text: 'x=', type: StandardTokenType.Other }\<close>.\<close>

record TokenText =
  token_text :: string
  token_type :: StandardTokenType

text \<open>
  An auto-closing or surrounding pair: \<^verbatim>\<open>{ open: '{', close: '}', notIn: ['string', 'comment'] }\<close>.
  The \<^verbatim>\<open>notIn\<close> member is optional.
\<close>

record AutoClosingPair =
  pair_open :: string
  pair_close :: string
  notIn :: "string list option"

text \<open>
  The language configuration, with the three members the specification lists. A member
  that is left out is \<open>None\<close>; an empty array is \<open>Some []\<close>.
\<close>

record LanguageConfiguration =
  autoClosingPairs :: "AutoClosingPair list option"
  brackets :: "(string \<times> string) list option"
  surroundingPairs :: "AutoClosingPair list option"

record CharacterPairSupport =
  autoClosingPairs_field :: "AutoClosingPair list"
  surroundingPairs_field :: "AutoClosingPair list"

subsection \<open>Construction and getters\<close>

text \<open>
  Modelled from the spec: the constructor of \<^verbatim>\<open>StandardAutoClosingPairConditional\<close>, which
  is not among the sources. It keeps the open and close characters and the \<^verbatim>\<open>notIn\<close> set
  of the configuration entry.
\<close>

definition StandardAutoClosingPairConditional :: "AutoClosingPair \<Rightarrow> AutoClosingPair" where
  "StandardAutoClosingPairConditional source =
     \<lparr>pair_open = pair_open source, pair_close = pair_close source, notIn = notIn source\<rparr>"

text \<open>
  Modelled from the spec: the constructor of \<^verbatim>\<open>CharacterPairSupport\<close>, which is not among
  the sources. The pairs are built once from the static language configuration. The tests
  fix the precedence: \<^verbatim>\<open>autoClosingPairs\<close> before \<^verbatim>\<open>brackets\<close>, and the auto-closing
  pairs as the default of the surrounding pairs.
\<close>

definition new_CharacterPairSupport :: "LanguageConfiguration \<Rightarrow> CharacterPairSupport" where
  "new_CharacterPairSupport config =
     (let auto =
            (case autoClosingPairs config of
               Some ps \<Rightarrow> map StandardAutoClosingPairConditional ps
             | None \<Rightarrow>
                 (case brackets config of
                    Some bs \<Rightarrow>
                      map (\<lambda>b. StandardAutoClosingPairConditional
                                  \<lparr>pair_open = fst b, pair_close = snd b, notIn = None\<rparr>) bs
                  | None \<Rightarrow> []))
      in \<lparr>autoClosingPairs_field = auto,
          surroundingPairs_field =
            (case surroundingPairs config of Some sp \<Rightarrow> sp | None \<Rightarrow> auto)\<rparr>)"

text \<open>Modelled from the spec: the two getters, which are not among the sources.\<close>

definition getAutoClosingPairs :: "CharacterPairSupport \<Rightarrow> AutoClosingPair list" where
  "getAutoClosingPairs support = autoClosingPairs_field support"

definition getSurroundingPairs :: "CharacterPairSupport \<Rightarrow> AutoClosingPair list" where
  "getSurroundingPairs support = surroundingPairs_field support"

subsection \<open>The auto-close rule\<close>

text \<open>
  A tokenized line as the rule sees it: for every token, the offset at which it ends and
  its scope type, in line order.
\<close>

type_synonym ScopedLineTokens = "(int \<times> StandardTokenType) list"

fun fakeTokens :: "int \<Rightarrow> TokenText list \<Rightarrow> ScopedLineTokens" where
  "fakeTokens startOffset [] = []"
| "fakeTokens startOffset (t # ts) =
     (startOffset + int (length (token_text t)), token_type t)
       # fakeTokens (startOffset + int (length (token_text t))) ts"

text \<open>
  Modelled from the spec: the test helper \<^verbatim>\<open>createFakeScopedLineTokens\<close> of
  \<^verbatim>\<open>modesTestUtils\<close>, which is not among the sources. The texts of the raw tokens,
  one after the other, make up the line.
\<close>

definition createFakeScopedLineTokens :: "TokenText list \<Rightarrow> ScopedLineTokens" where
  "createFakeScopedLineTokens rawTokens = fakeTokens 0 rawTokens"

text \<open>
  Modelled from the spec: the scope lookup, a linear scan for the first token that ends
  after the given offset. No token is found on an empty line and behind the last token.
\<close>

fun scanScope :: "ScopedLineTokens \<Rightarrow> int \<Rightarrow> StandardTokenType option" where
  "scanScope [] offset = None"
| "scanScope (tok # toks) offset =
     (if offset < fst tok then Some (snd tok) else scanScope toks offset)"

text \<open>The names under which the scope types appear in a \<^verbatim>\<open>notIn\<close> set.\<close>

fun scopeName :: "StandardTokenType \<Rightarrow> string" where
  "scopeName Other = ''other''"
| "scopeName Comment = ''comment''"
| "scopeName String = ''string''"

definition appearsIn :: "StandardTokenType \<Rightarrow> string list option \<Rightarrow> bool" where
  "appearsIn ty names = (case names of None \<Rightarrow> False | Some ns \<Rightarrow> scopeName ty \<in> set ns)"

text \<open>
  Modelled from the spec: the method \<^verbatim>\<open>shouldAutoClose\<close> of the pair, which is not among
  the sources. Columns count from 1. The token that decides is the one that holds the
  character left of the cursor, at offset \<open>column - 2\<close>: the tests fix this, see
  \<open>test_interesting_line_2\<close>. Auto-closing is permitted unless the scope type of that
  token appears in \<^verbatim>\<open>notIn\<close>, and permitted when there is no such token.
\<close>

definition shouldAutoClose :: "AutoClosingPair \<Rightarrow> ScopedLineTokens \<Rightarrow> int \<Rightarrow> bool" where
  "shouldAutoClose pair context column =
     (case scanScope context (column - 2) of
        None \<Rightarrow> True
      | Some ty \<Rightarrow> \<not> appearsIn ty (notIn pair))"

text \<open>
  What a call raises: an \<^verbatim>\<open>Error\<close> object with its message (\<open>TypeError\<close> is the one
  the runtime raises on a member access of \<^verbatim>\<open>undefined\<close>), a value that is no object,
  such as a string, or \<^verbatim>\<open>null\<close> or \<^verbatim>\<open>undefined\<close> itself.
\<close>

datatype thrown = TypeError | Error string | NonObject | Nullish

text \<open>
  The helper of the test suite, as the source has it:
  \<^verbatim>\<open>characterPairSupport.getAutoClosingPairs()[0].shouldAutoClose(createFakeScopedLineTokens(line), column)\<close>.
  With no auto-closing pair the method call on \<^verbatim>\<open>undefined\<close> raises.
\<close>

definition testShouldAutoClose ::
  "CharacterPairSupport \<Rightarrow> TokenText list \<Rightarrow> int \<Rightarrow> thrown + bool" where
  "testShouldAutoClose characterPairSupport line column =
     (case getAutoClosingPairs characterPairSupport of
        [] \<Rightarrow> Inl TypeError
      | autoClosingPair # _ \<Rightarrow>
          Inr (shouldAutoClose autoClosingPair (createFakeScopedLineTokens line) column))"

subsection \<open>Positions in a tokenized line\<close>

text \<open>
  The line is the concatenation of the token texts. Token \<open>i\<close> occupies the offsets from
  \<open>startOffset line i\<close> up to, and not including, \<open>endOffset line i\<close>.
\<close>

definition startOffset :: "TokenText list \<Rightarrow> nat \<Rightarrow> int" where
  "startOffset line i = int (length (concat (map token_text (take i line))))"

definition endOffset :: "TokenText list \<Rightarrow> nat \<Rightarrow> int" where
  "endOffset line i = startOffset line (Suc i)"

text \<open>
  Token \<open>i\<close> encloses the column when it holds the character left of the cursor, the one
  at offset \<open>column - 2\<close>. At column 1 there is no such character, and the first token
  of the line encloses the column.
\<close>

definition encloses :: "TokenText list \<Rightarrow> nat \<Rightarrow> int \<Rightarrow> bool" where
  "encloses line i column \<longleftrightarrow>
     i < length line \<and> (i = 0 \<or> startOffset line i \<le> column - 2) \<and> column - 2 < endOffset line i"

text \<open>
  A column lies on a token boundary when the cursor stands where a token starts or ends:
  before the first token, between two tokens, or behind the last one.
\<close>

definition onTokenBoundary :: "TokenText list \<Rightarrow> int \<Rightarrow> bool" where
  "onTokenBoundary line column \<longleftrightarrow>
     column - 1 \<in> set (map (startOffset line) [0..<Suc (length line)])"

section \<open>The tree data provider of the workspace view\<close>

subsection \<open>Data\<close>

text \<open>A \<^verbatim>\<open>vscode.Uri\<close>, with the two members the provider reads.\<close>

record Uri =
  path :: string
  fsPath :: string

text \<open>
  A node of the workspace tree: an element together with the tree data provider that
  contributed it. Providers and elements are objects of the project extensions; the model
  leaves their types open.
\<close>

record ('tdp, 'el) WorkspaceTreeItem =
  treeDataProvider :: 'tdp
  element :: 'el

text \<open>The messages of \<^verbatim>\<open>constants.ts\<close>, by name.\<close>

datatype message =
    ProjectsFailedToLoad
  | UnknownProjectsError "string list"
  | onlyMovingOneFileIsSupported
  | dragAndDropNotSupported

text \<open>
  What the provider does to its surroundings, in the order in which it happens: log lines,
  calls of the workspace service that reload or read the project list, events fired
  (\<open>None\<close>: fired without an element, for the whole tree), context keys set, lines on
  the console (\<open>None\<close>: the value \<^verbatim>\<open>undefined\<close> is printed), messages shown, telemetry
  sent, listeners registered, files moved.
\<close>

datatype ('pp, 'tdp, 'el) effect =
    LoggerLog string
  | CallGetProjectsInWorkspace bool
  | FireOnDidChangeTreeData "('tdp, 'el) WorkspaceTreeItem option"
  | SetContext string bool
  | ConsoleError "string option"
  | ShowErrorMessage message
  | SendMetricsEvent "(string \<times> nat) list" string
  | Listen 'tdp
  | MoveFile 'pp Uri 'el "('tdp, 'el) WorkspaceTreeItem"

text \<open>
  The workspace service, the command service and the objects of the project extensions,
  as far as the provider calls them. Every call that the source awaits either completes
  or raises: a result \<open>Inl e\<close>, or \<open>Some e\<close> where nothing is returned, is the raise of
  \<open>e\<close>. The second argument of \<^verbatim>\<open>getProjectsInWorkspace\<close> is the flag
  \<^verbatim>\<open>refreshFromDisk\<close>; the first one is always \<^verbatim>\<open>undefined\<close>. \<open>setContext\<close> is
  \<^verbatim>\<open>vscode.commands.executeCommand('setContext', key, value)\<close>. A returned \<open>None\<close> of
  \<open>getProjectProvider\<close>, \<open>provider_getChildren\<close> and \<open>projectFileUri\<close> is
  \<^verbatim>\<open>undefined\<close>. \<open>extname\<close> is the function of the same name of Node's \<^verbatim>\<open>path\<close>
  module.
\<close>

record ('pp, 'tdp, 'el) host =
  getProjectsInWorkspace :: "bool \<Rightarrow> thrown + Uri list"
  setContext :: "string \<Rightarrow> bool \<Rightarrow> thrown option"
  getProjectProvider :: "Uri \<Rightarrow> thrown + 'pp option"
  getProjectTreeDataProvider :: "'pp \<Rightarrow> Uri \<Rightarrow> thrown + 'tdp"
  hasOnDidChangeTreeData :: "'tdp \<Rightarrow> bool"
  provider_getChildren :: "'tdp \<Rightarrow> 'el option \<Rightarrow> thrown + 'el list option"
  extname :: "string \<Rightarrow> string"
  supportsDragAndDrop :: "'pp \<Rightarrow> bool"
  hasMoveFile :: "'pp \<Rightarrow> bool"
  moveFile :: "'pp \<Rightarrow> Uri \<Rightarrow> 'el \<Rightarrow> ('tdp, 'el) WorkspaceTreeItem \<Rightarrow> thrown option"
  projectFileUri :: "'el \<Rightarrow> Uri option"

text \<open>
  Reading \<^verbatim>\<open>e.message\<close> of a caught value: the message of an \<^verbatim>\<open>Error\<close> object,
  \<^verbatim>\<open>undefined\<close> for a value that is no object, and a \<^verbatim>\<open>TypeError\<close> for \<^verbatim>\<open>null\<close> and
  \<^verbatim>\<open>undefined\<close>.
\<close>

fun errorMessage :: "thrown \<Rightarrow> thrown + string option" where
  "errorMessage TypeError = Inr (Some ''TypeError'')"
| "errorMessage (Error m) = Inr (Some m)"
| "errorMessage NonObject = Inr None"
| "errorMessage Nullish = Inl TypeError"

subsection \<open>\<^verbatim>\<open>refresh\<close>\<close>

text \<open>
  \<^verbatim>\<open>Logger.log(...); await this._workspaceService.getProjectsInWorkspace(undefined, true);
  this._onDidChangeTreeData?.fire();\<close>
  A raise of the awaited call is the raise of \<^verbatim>\<open>refresh\<close>, and the line that fires is
  not reached. The emitter is created together with the object and never assigned again,
  so the optional call always finds it. The result is what \<^verbatim>\<open>refresh\<close> raises, if it
  does, and its effects.
\<close>

definition refresh ::
  "('pp, 'tdp, 'el) host \<Rightarrow> thrown option \<times> ('pp, 'tdp, 'el) effect list" where
  "refresh workspaceService =
     (case getProjectsInWorkspace workspaceService True of
        Inl e \<Rightarrow>
          (Some e, [LoggerLog ''Refreshing projects tree'', CallGetProjectsInWorkspace True])
      | Inr _ \<Rightarrow>
          (None, [LoggerLog ''Refreshing projects tree'', CallGetProjectsInWorkspace True,
                  FireOnDidChangeTreeData None]))"

subsection \<open>\<^verbatim>\<open>getChildren\<close>\<close>

text \<open>
  \<^verbatim>\<open>if (!typeMetric.hasOwnProperty(ext)) { typeMetric[ext] = 0; } typeMetric[ext]++;\<close>
  The record of counters is a list of entries in the order in which they were added.
\<close>

definition incrementProjectTypeMetric ::
  "('pp, 'tdp, 'el) host \<Rightarrow> (string \<times> nat) list \<Rightarrow> Uri \<Rightarrow> (string \<times> nat) list" where
  "incrementProjectTypeMetric workspaceService typeMetric projectUri =
     (let ext = extname workspaceService (fsPath projectUri);
          typeMetric' = (if map_of typeMetric ext = None then typeMetric @ [(ext, 0)]
                         else typeMetric)
      in map (\<lambda>entry. if fst entry = ext then (fst entry, snd entry + 1) else entry)
           typeMetric')"

text \<open>The local variables of the loop over the projects, and what was done so far.\<close>

record ('pp, 'tdp, 'el) loop_state =
  unknownProjects :: "string list"
  treeItems :: "('tdp, 'el) WorkspaceTreeItem list"
  typeMetric :: "(string \<times> nat) list"
  errorCount :: nat
  effects :: "('pp, 'tdp, 'el) effect list"

text \<open>
  The handler: \<^verbatim>\<open>catch (e) { errorCount++; console.error(e.message); }\<close>
  Where reading the message raises, the handler raises, after it has counted the error.
\<close>

definition caught ::
  "thrown \<Rightarrow> ('pp, 'tdp, 'el) loop_state \<Rightarrow> thrown option \<times> ('pp, 'tdp, 'el) loop_state" where
  "caught e st =
     (let st' = st\<lparr>errorCount := errorCount st + 1\<rparr>
      in case errorMessage e of
           Inl raised \<Rightarrow> (Some raised, st')
         | Inr m \<Rightarrow> (None, st'\<lparr>effects := effects st' @ [ConsoleError m]\<rparr>))"

text \<open>
  One round of the loop: the body of the \<^verbatim>\<open>try\<close> with its \<^verbatim>\<open>continue\<close>, and the
  handler where one of the three awaited calls raises. The provider is asked for the
  children of \<^verbatim>\<open>element\<close>, which is \<^verbatim>\<open>undefined\<close> in this branch. The result is what
  the round raises, if it does, and the state it leaves.
\<close>

definition loopBody ::
  "('pp, 'tdp, 'el) host \<Rightarrow> ('pp, 'tdp, 'el) loop_state \<Rightarrow> Uri
     \<Rightarrow> thrown option \<times> ('pp, 'tdp, 'el) loop_state" where
  "loopBody workspaceService st project =
     (case getProjectProvider workspaceService project of
        Inl e \<Rightarrow> caught e st
      | Inr projectProvider \<Rightarrow>
          (let st1 = st\<lparr>typeMetric :=
                          incrementProjectTypeMetric workspaceService (typeMetric st) project\<rparr>
           in case projectProvider of
                None \<Rightarrow> (None, st1\<lparr>unknownProjects := unknownProjects st1 @ [path project]\<rparr>)
              | Some pp \<Rightarrow>
                  (case getProjectTreeDataProvider workspaceService pp project of
                     Inl e \<Rightarrow> caught e st1
                   | Inr tdp \<Rightarrow>
                       (let st2 = (if hasOnDidChangeTreeData workspaceService tdp
                                   then st1\<lparr>effects := effects st1 @ [Listen tdp]\<rparr>
                                   else st1)
                        in case provider_getChildren workspaceService tdp None of
                             Inl e \<Rightarrow> caught e st2
                           | Inr children \<Rightarrow>
                               (case children of
                                  None \<Rightarrow> (None, st2)
                                | Some cs \<Rightarrow>
                                    (None,
                                     st2\<lparr>treeItems := treeItems st2 @
                                           map (\<lambda>child. \<lparr>treeDataProvider = tdp, element = child\<rparr>)
                                             cs\<rparr>))))))"

text \<open>
  \<^verbatim>\<open>for (const project of projects) { ... }\<close>: the rounds in order, up to the first one
  that raises.
\<close>

fun projectsLoop ::
  "('pp, 'tdp, 'el) host \<Rightarrow> ('pp, 'tdp, 'el) loop_state \<Rightarrow> Uri list
     \<Rightarrow> thrown option \<times> ('pp, 'tdp, 'el) loop_state" where
  "projectsLoop workspaceService st [] = (None, st)"
| "projectsLoop workspaceService st (project # projects) =
     (case loopBody workspaceService st project of
        (Some e, st') \<Rightarrow> (Some e, st')
      | (None, st') \<Rightarrow> projectsLoop workspaceService st' projects)"

text \<open>The state in which the loop starts, with the effects of the lines before it.\<close>

definition beforeLoop :: "Uri list \<Rightarrow> ('pp, 'tdp, 'el) loop_state" where
  "beforeLoop projects =
     \<lparr>unknownProjects = [], treeItems = [], typeMetric = [], errorCount = 0,
      effects = [LoggerLog ''Calling getProjectsInWorkspace() from getChildren()'',
                 CallGetProjectsInWorkspace False,
                 SetContext ''isProjectsViewEmpty'' (length projects = 0)]\<rparr>"

text \<open>What follows the loop: the error message, the telemetry, the message on unknown projects.\<close>

definition afterLoop ::
  "Uri list \<Rightarrow> ('pp, 'tdp, 'el) loop_state \<Rightarrow> ('pp, 'tdp, 'el) effect list" where
  "afterLoop projects st =
     effects st
     @ (if errorCount st > 0 then [ShowErrorMessage ProjectsFailedToLoad] else [])
     @ [SendMetricsEvent (typeMetric st) ''OpenWorkspaceProjectTypes'',
        SendMetricsEvent
          [(''handled'', length projects - length (unknownProjects st)),
           (''unhandled'', length (unknownProjects st))]
          ''OpenWorkspaceProjectsHandled'']
     @ (if length (unknownProjects st) > 0
        then [ShowErrorMessage (UnknownProjectsError (unknownProjects st))] else [])"

text \<open>
  \<^verbatim>\<open>getChildren(element?)\<close>: the items it resolves to, or what it raises, and its effects.
  With an element, the element's own provider is asked, and a raise of the provider is
  the raise of the call. Without one, the two awaited calls before the loop are outside
  the \<^verbatim>\<open>try\<close>, so their raise is the raise of the call, and so is a raise of the handler.
\<close>

definition getChildren ::
  "('pp, 'tdp, 'el) host \<Rightarrow> ('tdp, 'el) WorkspaceTreeItem option
     \<Rightarrow> (thrown + ('tdp, 'el) WorkspaceTreeItem list) \<times> ('pp, 'tdp, 'el) effect list" where
  "getChildren workspaceService elem =
     (case elem of
        Some el \<Rightarrow>
          (case provider_getChildren workspaceService (treeDataProvider el) (Some (element el)) of
             Inl e \<Rightarrow> (Inl e, [])
           | Inr items \<Rightarrow>
               (Inr (case items of
                       Some its \<Rightarrow>
                         map (\<lambda>item. \<lparr>treeDataProvider = treeDataProvider el, element = item\<rparr>) its
                     | None \<Rightarrow> []),
                []))
      | None \<Rightarrow>
          (case getProjectsInWorkspace workspaceService False of
             Inl e \<Rightarrow>
               (Inl e, [LoggerLog ''Calling getProjectsInWorkspace() from getChildren()'',
                        CallGetProjectsInWorkspace False])
           | Inr projects \<Rightarrow>
               (case setContext workspaceService ''isProjectsViewEmpty'' (length projects = 0) of
                  Some e \<Rightarrow> (Inl e, effects (beforeLoop projects))
                | None \<Rightarrow>
                    (case projectsLoop workspaceService (beforeLoop projects) projects of
                       (Some e, st) \<Rightarrow> (Inl e, effects st)
                     | (None, st) \<Rightarrow> (Inr (treeItems st), afterLoop projects st)))))"

subsection \<open>\<^verbatim>\<open>handleDrop\<close>\<close>

text \<open>
  The data transfer is looked up under the mime type of the tree; \<open>None\<close> is a transfer
  without such an item, \<open>Some value\<close> one whose item carries the dragged elements, as
  \<^verbatim>\<open>handleDrag\<close> stores them. Reading \<^verbatim>\<open>value[0].projectFileUri\<close> of an empty array raises.
  A raise of the awaited \<^verbatim>\<open>moveFile\<close> is the raise of the call, and the refresh is not
  reached. The refresh is started and not awaited: its effects are listed after the move,
  and what it raises is not a raise of \<^verbatim>\<open>handleDrop\<close>.
\<close>

definition handleDrag :: "('tdp, 'el) WorkspaceTreeItem list \<Rightarrow> 'el list option" where
  "handleDrag items = Some (map element items)"

definition handleDrop ::
  "('pp, 'tdp, 'el) host \<Rightarrow> ('tdp, 'el) WorkspaceTreeItem option \<Rightarrow> 'el list option
     \<Rightarrow> thrown option \<times> ('pp, 'tdp, 'el) effect list" where
  "handleDrop workspaceService target sources =
     (case target of
        None \<Rightarrow> (None, [])
      | Some tgt \<Rightarrow>
          (case sources of
             None \<Rightarrow> (None, [])
           | Some val \<Rightarrow>
               if length val > 1
               then (None, [ShowErrorMessage onlyMovingOneFileIsSupported])
               else
                 (case val of
                    [] \<Rightarrow> (Some TypeError, [])
                  | dragged # _ \<Rightarrow>
                      (case projectFileUri workspaceService dragged of
                         None \<Rightarrow> (None, [])
                       | Some projectUri \<Rightarrow>
                           (case getProjectProvider workspaceService projectUri of
                              Inl e \<Rightarrow> (Some e, [])
                            | Inr None \<Rightarrow> (None, [])
                            | Inr (Some projectProvider) \<Rightarrow>
                                if \<not> supportsDragAndDrop workspaceService projectProvider
                                   \<or> \<not> hasMoveFile workspaceService projectProvider
                                then (None, [ShowErrorMessage dragAndDropNotSupported])
                                else
                                  (case moveFile workspaceService projectProvider projectUri
                                          dragged tgt of
                                     Some e \<Rightarrow>
                                       (Some e, [MoveFile projectProvider projectUri dragged tgt])
                                   | None \<Rightarrow>
                                       (None,
                                        MoveFile projectProvider projectUri dragged tgt
                                          # snd (refresh workspaceService))))))))"

section \<open>The long text viewer\<close>

text \<open>
  The viewer holds two DOM elements. Of the wrapper the model keeps the display value and
  the position in pixels, of the content element its text and whether it has the focus.
\<close>

record LongTextViewer =
  wrapper_display :: string
  wrapper_top :: int
  wrapper_left :: int
  content_innerText :: string
  content_focused :: bool

record ValidateResults =
  valid :: bool
  msg :: "string option"

record Position =
  position_top :: int
  position_left :: int

definition position :: "LongTextViewer \<Rightarrow> Position \<Rightarrow> LongTextViewer" where
  "position viewer pos =
     viewer\<lparr>wrapper_top := position_top pos - 5, wrapper_left := position_left pos - 5\<rparr>"

definition init :: "Position \<Rightarrow> LongTextViewer" where
  "init pos =
     (position \<lparr>wrapper_display = '''', wrapper_top = 0, wrapper_left = 0,
                content_innerText = '''', content_focused = False\<rparr> pos)
       \<lparr>content_focused := True\<rparr>"

definition hide :: "LongTextViewer \<Rightarrow> LongTextViewer" where
  "hide viewer = viewer\<lparr>wrapper_display := ''none''\<rparr>"

definition show_viewer :: "LongTextViewer \<Rightarrow> LongTextViewer" where
  "show_viewer viewer = viewer\<lparr>wrapper_display := ''''\<rparr>"

definition focus :: "LongTextViewer \<Rightarrow> LongTextViewer" where
  "focus viewer = viewer\<lparr>content_focused := True\<rparr>"

text \<open>\<^verbatim>\<open>loadValue(item)\<close>: the item is a string, or an object whose \<^verbatim>\<open>text\<close> is shown.\<close>

datatype item = IsString string | HasText string

fun loadValue :: "LongTextViewer \<Rightarrow> item \<Rightarrow> LongTextViewer" where
  "loadValue viewer (IsString s) = viewer\<lparr>content_innerText := s\<rparr>"
| "loadValue viewer (HasText t) = viewer\<lparr>content_innerText := t\<rparr>"

text \<open>
  \<^verbatim>\<open>applyValue(item, state)\<close> writes the state into the item, under the field of the
  column, and leaves the viewer alone. The item is a record of named values.
\<close>

definition applyValue :: "string \<Rightarrow> (string \<rightharpoonup> string) \<Rightarrow> string \<Rightarrow> (string \<rightharpoonup> string)" where
  "applyValue field item state = item(field \<mapsto> state)"

definition isValueChanged :: "LongTextViewer \<Rightarrow> bool" where
  "isValueChanged viewer = False"

definition validate :: "LongTextViewer \<Rightarrow> ValidateResults" where
  "validate viewer = \<lparr>valid = True, msg = None\<rparr>"

definition serializeValue :: "LongTextViewer \<Rightarrow> string" where
  "serializeValue viewer = ''''"

text \<open>
  The calls on a viewer. \<^verbatim>\<open>handleKeyDown\<close>, \<^verbatim>\<open>save\<close>, \<^verbatim>\<open>cancel\<close> and \<^verbatim>\<open>destroy\<close> have
  empty bodies.
\<close>

datatype viewer_call =
    HandleKeyDown | Save | Cancel | Destroy
  | Hide | Show | Focus | LoadValue item | SetPosition Position

fun viewer_step :: "LongTextViewer \<Rightarrow> viewer_call \<Rightarrow> LongTextViewer" where
  "viewer_step viewer HandleKeyDown = viewer"
| "viewer_step viewer Save = viewer"
| "viewer_step viewer Cancel = viewer"
| "viewer_step viewer Destroy = viewer"
| "viewer_step viewer Hide = hide viewer"
| "viewer_step viewer Show = show_viewer viewer"
| "viewer_step viewer Focus = focus viewer"
| "viewer_step viewer (LoadValue i) = loadValue viewer i"
| "viewer_step viewer (SetPosition pos) = position viewer pos"

section \<open>Notions used to state the properties\<close>

text \<open>
  What one project contributes to the top level of the tree: the children that its own
  tree data provider produces for \<^verbatim>\<open>undefined\<close>, each paired with that provider. A project
  without a project provider contributes nothing, and so does a project for which one of
  the calls raises or whose provider returns no list.
\<close>

definition projectItems ::
  "('pp, 'tdp, 'el) host \<Rightarrow> Uri \<Rightarrow> ('tdp, 'el) WorkspaceTreeItem list" where
  "projectItems workspaceService project =
     (case getProjectProvider workspaceService project of
        Inr (Some pp) \<Rightarrow>
          (case getProjectTreeDataProvider workspaceService pp project of
             Inr tdp \<Rightarrow>
               (case provider_getChildren workspaceService tdp None of
                  Inr (Some cs) \<Rightarrow> map (\<lambda>child. \<lparr>treeDataProvider = tdp, element = child\<rparr>) cs
                | _ \<Rightarrow> [])
           | Inl _ \<Rightarrow> [])
      | _ \<Rightarrow> [])"

definition hasNoProvider :: "('pp, 'tdp, 'el) host \<Rightarrow> Uri \<Rightarrow> bool" where
  "hasNoProvider workspaceService project \<longleftrightarrow>
     getProjectProvider workspaceService project = Inr None"

text \<open>What the three calls made for a project raise, if one of them does.\<close>

definition raisedFor :: "('pp, 'tdp, 'el) host \<Rightarrow> Uri \<Rightarrow> thrown option" where
  "raisedFor workspaceService project =
     (case getProjectProvider workspaceService project of
        Inl e \<Rightarrow> Some e
      | Inr None \<Rightarrow> None
      | Inr (Some pp) \<Rightarrow>
          (case getProjectTreeDataProvider workspaceService pp project of
             Inl e \<Rightarrow> Some e
           | Inr tdp \<Rightarrow>
               (case provider_getChildren workspaceService tdp None of
                  Inl e \<Rightarrow> Some e
                | Inr _ \<Rightarrow> None)))"

text \<open>A project fails to load when one of the three calls made for it raises.\<close>

definition failsToLoad :: "('pp, 'tdp, 'el) host \<Rightarrow> Uri \<Rightarrow> bool" where
  "failsToLoad workspaceService project \<longleftrightarrow> raisedFor workspaceService project \<noteq> None"

text \<open>
  The workspace loads: the project list is returned, the context key is set, and what
  is raised for a project, if anything, is not \<^verbatim>\<open>null\<close> or \<^verbatim>\<open>undefined\<close>.
\<close>

definition loads :: "('pp, 'tdp, 'el) host \<Rightarrow> Uri list \<Rightarrow> bool" where
  "loads workspaceService projects \<longleftrightarrow>
     getProjectsInWorkspace workspaceService False = Inr projects
     \<and> setContext workspaceService ''isProjectsViewEmpty'' (length projects = 0) = None
     \<and> list_all (\<lambda>project. raisedFor workspaceService project \<noteq> Some Nullish) projects"


text \<open>Effects that move a file, and effects that belong to a refresh.\<close>

fun isMoveFile :: "('pp, 'tdp, 'el) effect \<Rightarrow> bool" where
  "isMoveFile (MoveFile _ _ _ _) = True"
| "isMoveFile _ = False"

fun isRefresh :: "('pp, 'tdp, 'el) effect \<Rightarrow> bool" where
  "isRefresh (CallGetProjectsInWorkspace reload) = reload"
| "isRefresh (FireOnDidChangeTreeData _) = True"
| "isRefresh (LoggerLog text) = (text = ''Refreshing projects tree'')"
| "isRefresh _ = False"

definition movesNothing :: "('pp, 'tdp, 'el) effect list \<Rightarrow> bool" where
  "movesNothing effs \<longleftrightarrow> \<not> list_ex isMoveFile effs \<and> \<not> list_ex isRefresh effs"

text \<open>The states of the viewer after \<^verbatim>\<open>init\<close> and any number of calls.\<close>

definition viewer_after :: "Position \<Rightarrow> viewer_call list \<Rightarrow> LongTextViewer" where
  "viewer_after pos calls = foldl viewer_step (init pos) calls"

section \<open>Fixtures\<close>

text \<open>The configurations, pairs and lines of the test suite.\<close>

definition abPair :: AutoClosingPair where
  "abPair = \<lparr>pair_open = ''a'', pair_close = ''b'', notIn = None\<rparr>"

definition noConfig :: LanguageConfiguration where
  "noConfig = \<lparr>autoClosingPairs = None, brackets = None, surroundingPairs = None\<rparr>"

definition bracePair :: AutoClosingPair where
  "bracePair = \<lparr>pair_open = ''{'', pair_close = ''}'', notIn = Some [''string'', ''comment'']\<rparr>"

definition braceSupport :: CharacterPairSupport where
  "braceSupport = new_CharacterPairSupport (noConfig\<lparr>autoClosingPairs := Some [bracePair]\<rparr>)"

definition interestingLine1 :: "TokenText list" where
  "interestingLine1 =
     [\<lparr>token_text = [CHR 0x22, CHR ''a'', CHR 0x22], token_type = String\<rparr>]"

definition interestingLine2 :: "TokenText list" where
  "interestingLine2 =
     [\<lparr>token_text = ''x='', token_type = Other\<rparr>,
      \<lparr>token_text = [CHR 0x22, CHR ''a'', CHR 0x22], token_type = String\<rparr>,
      \<lparr>token_text = '';'', token_type = Other\<rparr>]"

definition interestingLine3 :: "TokenText list" where
  "interestingLine3 =
     [\<lparr>token_text = '' '', token_type = Other\<rparr>,
      \<lparr>token_text = ''//a'', token_type = Comment\<rparr>]"

text \<open>
  A workspace of four projects. The first and the fourth have a project provider, the
  second has none, and asking for the provider of the third raises. Providers, tree data
  providers and elements are numbered.
\<close>

definition project1 :: Uri where
  "project1 = \<lparr>path = ''/w/one.sqlproj'', fsPath = ''/w/one.sqlproj''\<rparr>"

definition project2 :: Uri where
  "project2 = \<lparr>path = ''/w/two.xyz'', fsPath = ''/w/two.xyz''\<rparr>"

definition project3 :: Uri where
  "project3 = \<lparr>path = ''/w/three.sqlproj'', fsPath = ''/w/three.sqlproj''\<rparr>"

definition project4 :: Uri where
  "project4 = \<lparr>path = ''/w/four.sqlproj'', fsPath = ''/w/four.sqlproj''\<rparr>"

definition demoHost :: "(nat, nat, nat) host" where
  "demoHost =
     \<lparr>getProjectsInWorkspace = (\<lambda>reload. Inr [project1, project2, project3, project4]),
      setContext = (\<lambda>key val. None),
      getProjectProvider =
        (\<lambda>uri. if uri = project1 then Inr (Some 1)
               else if uri = project2 then Inr None
               else if uri = project3 then Inl (Error ''cannot load'')
               else Inr (Some 4)),
      getProjectTreeDataProvider = (\<lambda>pp uri. Inr (10 * pp)),
      hasOnDidChangeTreeData = (\<lambda>tdp. True),
      provider_getChildren =
        (\<lambda>tdp parent. case parent of
                         None \<Rightarrow> if tdp = 10 then Inr (Some [1, 2]) else Inr (Some [3])
                       | Some el \<Rightarrow> if el = 1 then Inr (Some [11, 12]) else Inr None),
      extname = (\<lambda>p. dropWhile (\<lambda>c. c \<noteq> CHR ''.'') p),
      supportsDragAndDrop = (\<lambda>pp. pp = 1),
      hasMoveFile = (\<lambda>pp. True),
      moveFile = (\<lambda>pp uri el tgt. None),
      projectFileUri = (\<lambda>el. if el = 11 then Some project1
                              else if el = 12 then Some project2
                              else if el = 3 then Some project4 else None)\<rparr>"

definition dropTarget :: "(nat, nat) WorkspaceTreeItem" where
  "dropTarget = \<lparr>treeDataProvider = 10, element = 2\<rparr>"

text \<open>The same workspace, when the workspace service cannot give the project list.\<close>

definition offlineHost :: "(nat, nat, nat) host" where
  "offlineHost =
     demoHost\<lparr>getProjectsInWorkspace := (\<lambda>reload. Inl (Error ''workspace not available''))\<rparr>"

text \<open>The same workspace, when the command that sets the context key fails.\<close>

definition lockedHost :: "(nat, nat, nat) host" where
  "lockedHost = demoHost\<lparr>setContext := (\<lambda>key val. Some (Error ''command failed''))\<rparr>"

text \<open>The same workspace, when the call for the third project raises \<^verbatim>\<open>undefined\<close>.\<close>

definition rejectingHost :: "(nat, nat, nat) host" where
  "rejectingHost =
     demoHost\<lparr>getProjectProvider :=
                (\<lambda>uri. if uri = project3 then Inl Nullish else getProjectProvider demoHost uri)\<rparr>"

text \<open>The same workspace, when the project provider fails to move a file.\<close>

definition readOnlyHost :: "(nat, nat, nat) host" where
  "readOnlyHost = demoHost\<lparr>moveFile := (\<lambda>pp uri el tgt. Some (Error ''read only''))\<rparr>"

section \<open>The test suite, replayed\<close>

lemmas fixture_defs =
  abPair_def noConfig_def bracePair_def braceSupport_def
  interestingLine1_def interestingLine2_def interestingLine3_def

lemmas characterPair_defs =
  new_CharacterPairSupport_def StandardAutoClosingPairConditional_def
  getAutoClosingPairs_def getSurroundingPairs_def testShouldAutoClose_def shouldAutoClose_def
  createFakeScopedLineTokens_def appearsIn_def Let_def

lemma test_only_autoClosingPairs:
  "getAutoClosingPairs (new_CharacterPairSupport (noConfig\<lparr>autoClosingPairs := Some [abPair]\<rparr>))
     = [StandardAutoClosingPairConditional abPair]
   \<and> getSurroundingPairs (new_CharacterPairSupport (noConfig\<lparr>autoClosingPairs := Some [abPair]\<rparr>))
     = [StandardAutoClosingPairConditional abPair]"
  by (simp add: fixture_defs characterPair_defs)

lemma test_only_empty_autoClosingPairs:
  "getAutoClosingPairs (new_CharacterPairSupport (noConfig\<lparr>autoClosingPairs := Some []\<rparr>)) = []
   \<and> getSurroundingPairs (new_CharacterPairSupport (noConfig\<lparr>autoClosingPairs := Some []\<rparr>)) = []"
  by (simp add: fixture_defs characterPair_defs)

lemma test_only_brackets:
  "getAutoClosingPairs (new_CharacterPairSupport (noConfig\<lparr>brackets := Some [(''a'', ''b'')]\<rparr>))
     = [StandardAutoClosingPairConditional abPair]
   \<and> getSurroundingPairs (new_CharacterPairSupport (noConfig\<lparr>brackets := Some [(''a'', ''b'')]\<rparr>))
     = [StandardAutoClosingPairConditional abPair]"
  by (simp add: fixture_defs characterPair_defs)

lemma test_only_empty_brackets:
  "getAutoClosingPairs (new_CharacterPairSupport (noConfig\<lparr>brackets := Some []\<rparr>)) = []
   \<and> getSurroundingPairs (new_CharacterPairSupport (noConfig\<lparr>brackets := Some []\<rparr>)) = []"
  by (simp add: fixture_defs characterPair_defs)

lemma test_only_surroundingPairs:
  "getAutoClosingPairs (new_CharacterPairSupport (noConfig\<lparr>surroundingPairs := Some [abPair]\<rparr>)) = []
   \<and> getSurroundingPairs (new_CharacterPairSupport (noConfig\<lparr>surroundingPairs := Some [abPair]\<rparr>))
     = [abPair]"
  by (simp add: fixture_defs characterPair_defs)

lemma test_only_empty_surroundingPairs:
  "getAutoClosingPairs (new_CharacterPairSupport (noConfig\<lparr>surroundingPairs := Some []\<rparr>)) = []
   \<and> getSurroundingPairs (new_CharacterPairSupport (noConfig\<lparr>surroundingPairs := Some []\<rparr>)) = []"
  by (simp add: fixture_defs characterPair_defs)

lemma test_brackets_is_ignored_when_having_autoClosingPairs:
  "getAutoClosingPairs (new_CharacterPairSupport
      (noConfig\<lparr>autoClosingPairs := Some [], brackets := Some [(''a'', ''b'')]\<rparr>)) = []
   \<and> getSurroundingPairs (new_CharacterPairSupport
      (noConfig\<lparr>autoClosingPairs := Some [], brackets := Some [(''a'', ''b'')]\<rparr>)) = []"
  by (simp add: fixture_defs characterPair_defs)

lemma test_empty_line: "testShouldAutoClose braceSupport [] 1 = Inr True"
  by (simp add: fixture_defs characterPair_defs)

lemma test_not_interesting_line_1:
  "testShouldAutoClose braceSupport [\<lparr>token_text = ''do'', token_type = Other\<rparr>] 3
     = Inr True"
  by (simp add: fixture_defs characterPair_defs)

lemma test_not_interesting_line_2:
  "testShouldAutoClose
     (new_CharacterPairSupport
        (noConfig\<lparr>autoClosingPairs := Some [bracePair\<lparr>notIn := None\<rparr>]\<rparr>))
     [\<lparr>token_text = ''do'', token_type = String\<rparr>] 3 = Inr True"
  by (simp add: fixture_defs characterPair_defs)

lemma test_interesting_line_1:
  "map (\<lambda>column. testShouldAutoClose braceSupport interestingLine1 column) [1, 2, 3, 4]
     = [Inr False, Inr False, Inr False, Inr False]"
  by (simp add: fixture_defs characterPair_defs)

lemma test_interesting_line_2:
  "map (\<lambda>column. testShouldAutoClose braceSupport interestingLine2 column)
       [1, 2, 3, 4, 5, 6, 7]
     = [Inr True, Inr True, Inr True, Inr False, Inr False, Inr False, Inr True]"
  by (simp add: fixture_defs characterPair_defs)

lemma test_interesting_line_3:
  "map (\<lambda>column. testShouldAutoClose braceSupport interestingLine3 column) [1, 2, 3, 4, 5]
     = [Inr True, Inr True, Inr False, Inr False, Inr False]"
  by (simp add: fixture_defs characterPair_defs)

section \<open>The auto-close rule and the enclosing token\<close>

lemma startOffset_0: "startOffset line 0 = 0"
  by (simp add: startOffset_def)

lemma startOffset_Cons:
  "startOffset (t # ts) (Suc k) = int (length (token_text t)) + startOffset ts k"
  by (simp add: startOffset_def)

lemma startOffset_nonneg: "0 \<le> startOffset line k"
  by (simp add: startOffset_def)

lemma endOffset_Cons:
  "endOffset (t # ts) (Suc k) = int (length (token_text t)) + endOffset ts k"
  by (simp add: endOffset_def startOffset_Cons)

lemma endOffset_0: "endOffset (t # ts) 0 = int (length (token_text t))"
  by (simp add: endOffset_def startOffset_def)

lemma startOffset_le_length:
  assumes "k \<le> length line"
  shows "startOffset line k \<le> startOffset line (length line)"
proof -
  have "length (concat (map token_text (take k line)))
          \<le> length (concat (map token_text (take k line @ drop k line)))"
    unfolding map_append concat_append by simp
  then show ?thesis by (simp add: startOffset_def)
qed

text \<open>
  The scan from a start offset \<open>s\<close> finds the type of the token whose offsets, shifted by
  \<open>s\<close>, hold the offset looked for.
\<close>

lemma scanScope_fakeTokens:
  "s \<le> off \<Longrightarrow>
   scanScope (fakeTokens s line) off = Some ty \<longleftrightarrow>
     (\<exists>i<length line. s + startOffset line i \<le> off \<and> off < s + endOffset line i
        \<and> token_type (line ! i) = ty)"
proof (induction line arbitrary: s)
  case Nil
  then show ?case by simp
next
  case (Cons t ts)
  let ?e = "s + int (length (token_text t))"
  show ?case
  proof (cases "off < ?e")
    case True
    have "(\<exists>i<length (t # ts). s + startOffset (t # ts) i \<le> off
             \<and> off < s + endOffset (t # ts) i \<and> token_type ((t # ts) ! i) = ty)
          \<longleftrightarrow> token_type t = ty" (is "?L \<longleftrightarrow> _")
    proof
      assume ?L
      then obtain i where i: "i < length (t # ts)" "s + startOffset (t # ts) i \<le> off"
        "token_type ((t # ts) ! i) = ty" by blast
      show "token_type t = ty"
      proof (cases i)
        case 0
        with i show ?thesis by simp
      next
        case (Suc k)
        with i(2) startOffset_nonneg[of ts k] True show ?thesis
          by (simp add: startOffset_Cons)
      qed
    next
      assume "token_type t = ty"
      with True Cons.prems show ?L
        by (intro exI[of _ 0]) (simp add: startOffset_0 endOffset_0)
    qed
    with True show ?thesis by auto
  next
    case False
    then have le: "?e \<le> off" by simp
    have "(\<exists>i<length (t # ts). s + startOffset (t # ts) i \<le> off
             \<and> off < s + endOffset (t # ts) i \<and> token_type ((t # ts) ! i) = ty)
          \<longleftrightarrow> (\<exists>k<length ts. ?e + startOffset ts k \<le> off \<and> off < ?e + endOffset ts k
                 \<and> token_type (ts ! k) = ty)" (is "?L \<longleftrightarrow> ?R")
    proof
      assume ?L
      then obtain i where i: "i < length (t # ts)" "s + startOffset (t # ts) i \<le> off"
        "off < s + endOffset (t # ts) i" "token_type ((t # ts) ! i) = ty" by blast
      show ?R
      proof (cases i)
        case 0
        with i(3) le show ?thesis by (simp add: endOffset_0)
      next
        case (Suc k)
        with i show ?thesis
          by (intro exI[of _ k]) (simp add: endOffset_Cons startOffset_Cons)
      qed
    next
      assume ?R
      then obtain k where k: "k < length ts" "?e + startOffset ts k \<le> off"
        "off < ?e + endOffset ts k" "token_type (ts ! k) = ty" by blast
      then show ?L
        by (intro exI[of _ "Suc k"]) (simp add: endOffset_Cons startOffset_Cons)
    qed
    with False Cons.IH[OF le] show ?thesis by simp
  qed
qed

text \<open>The scan finds no token exactly on an empty line and behind the last token.\<close>

lemma scanScope_None:
  "scanScope (fakeTokens s line) off = None \<longleftrightarrow>
     line = [] \<or> s + startOffset line (length line) \<le> off"
proof (induction line arbitrary: s)
  case Nil
  then show ?case by simp
next
  case (Cons t ts)
  have "0 \<le> startOffset ts (length ts)" by (rule startOffset_nonneg)
  with Cons.IH[of "s + int (length (token_text t))"] show ?case
    by (auto simp: startOffset_Cons startOffset_0)
qed

text \<open>What the scan of \<^verbatim>\<open>shouldAutoClose\<close> finds is the type of the enclosing token.\<close>

lemma scanScope_encloses:
  "scanScope (createFakeScopedLineTokens line) (column - 2) = Some ty \<longleftrightarrow>
     (\<exists>i. encloses line i column \<and> token_type (line ! i) = ty)"
proof (cases "0 \<le> column - 2")
  case True
  have "\<And>i. encloses line i column \<longleftrightarrow>
     i < length line \<and> startOffset line i \<le> column - 2 \<and> column - 2 < endOffset line i"
    using True by (auto simp: encloses_def startOffset_0)
  with scanScope_fakeTokens[OF True, of line ty] show ?thesis
    by (auto simp: createFakeScopedLineTokens_def)
next
  case False
  show ?thesis
  proof (cases line)
    case Nil
    then show ?thesis by (simp add: createFakeScopedLineTokens_def encloses_def)
  next
    case (Cons t ts)
    have only0: "\<And>i. encloses (t # ts) i column \<longleftrightarrow> i = 0"
    proof -
      fix i
      show "encloses (t # ts) i column \<longleftrightarrow> i = 0"
      proof (cases i)
        case 0
        with False show ?thesis by (simp add: encloses_def endOffset_0)
      next
        case (Suc k)
        with False startOffset_nonneg[of "t # ts" i] show ?thesis
          by (simp add: encloses_def)
      qed
    qed
    from False Cons show ?thesis
      by (simp add: createFakeScopedLineTokens_def only0)
  qed
qed

lemma onTokenBoundary_iff:
  "onTokenBoundary line column \<longleftrightarrow> (\<exists>k\<le>length line. column - 1 = startOffset line k)"
proof -
  have "set [0..<Suc (length line)] = {k. k \<le> length line}" by auto
  then show ?thesis unfolding onTokenBoundary_def set_map by blast
qed

text \<open>
  C1. For every auto-closing pair, every tokenized line and every column,
  \<^verbatim>\<open>shouldAutoClose\<close> returns false exactly when a token encloses the column and the
  scope type of that token appears in the \<^verbatim>\<open>notIn\<close> set of the pair; in all other cases
  it returns true. With a pair that has no \<^verbatim>\<open>notIn\<close> set it returns true everywhere. The enclosing
  token is the one that holds the character left of the cursor, as the tests have it.
\<close>

theorem shouldAutoClose_notIn:
  "(\<not> shouldAutoClose pair (createFakeScopedLineTokens line) column \<longleftrightarrow>
      (\<exists>i. encloses line i column \<and> appearsIn (token_type (line ! i)) (notIn pair)))
   \<and> (notIn pair = None \<longrightarrow> shouldAutoClose pair (createFakeScopedLineTokens line) column)"
proof
  show "\<not> shouldAutoClose pair (createFakeScopedLineTokens line) column \<longleftrightarrow>
      (\<exists>i. encloses line i column \<and> appearsIn (token_type (line ! i)) (notIn pair))"
  proof (cases "scanScope (createFakeScopedLineTokens line) (column - 2)")
    case None
    then have "\<not> (\<exists>i. encloses line i column)"
      using scanScope_encloses[of line column] by (metis option.distinct(1))
    with None show ?thesis by (simp add: shouldAutoClose_def)
  next
    case (Some ty)
    have "\<And>i. encloses line i column \<Longrightarrow> token_type (line ! i) = ty"
      using scanScope_encloses[of line column] Some by (metis option.inject)
    moreover obtain j where "encloses line j column" "token_type (line ! j) = ty"
      using scanScope_encloses[of line column ty] Some by blast
    ultimately show ?thesis using Some by (auto simp: shouldAutoClose_def)
  qed
next
  show "notIn pair = None \<longrightarrow> shouldAutoClose pair (createFakeScopedLineTokens line) column"
    by (simp add: shouldAutoClose_def appearsIn_def split: option.splits)
qed

theorem shouldAutoClose_notIn_witness:
  "encloses interestingLine2 1 4
   \<and> appearsIn (token_type (interestingLine2 ! 1)) (notIn bracePair)
   \<and> \<not> shouldAutoClose bracePair (createFakeScopedLineTokens interestingLine2) 4
   \<and> notIn (bracePair\<lparr>notIn := None\<rparr>) = None
   \<and> shouldAutoClose (bracePair\<lparr>notIn := None\<rparr>) (createFakeScopedLineTokens interestingLine2) 4"
proof -
  have e: "encloses interestingLine2 1 4"
    by (simp add: encloses_def interestingLine2_def startOffset_def endOffset_def)
  have a: "appearsIn (token_type (interestingLine2 ! 1)) (notIn bracePair)"
    by (simp add: appearsIn_def interestingLine2_def bracePair_def)
  from e a shouldAutoClose_notIn[of bracePair interestingLine2 4]
    shouldAutoClose_notIn[of "bracePair\<lparr>notIn := None\<rparr>" interestingLine2 4]
  show ?thesis by auto
qed

text \<open>
  C2 does not hold as it is stated. Column 6 of the line \<^verbatim>\<open>x="a";\<close> lies on the boundary
  between the string token and the token \<^verbatim>\<open>;\<close>, and \<^verbatim>\<open>shouldAutoClose\<close> returns false
  there, as the test \<^verbatim>\<open>shouldAutoClosePair in interesting line 2\<close> expects. The same
  holds behind the last token: see column 5 in \<open>test_interesting_line_3\<close> and column 4
  in \<open>test_interesting_line_1\<close>.
\<close>

theorem shouldAutoClose_boundary_counterexample:
  "onTokenBoundary interestingLine2 6
   \<and> \<not> shouldAutoClose bracePair (createFakeScopedLineTokens interestingLine2) 6"
  by (simp add: onTokenBoundary_def interestingLine2_def startOffset_def bracePair_def
      shouldAutoClose_def createFakeScopedLineTokens_def appearsIn_def)

text \<open>
  C2, amended. For every auto-closing pair, \<^verbatim>\<open>shouldAutoClose\<close> returns true whenever
  the token list of the line is empty. At a column on a token boundary of a line with
  tokens, a token encloses the column - the one that holds the character left of the
  cursor, the first token at column 1 - and \<^verbatim>\<open>shouldAutoClose\<close> returns true exactly when
  the scope type of that token does not appear in the \<^verbatim>\<open>notIn\<close> set of the pair.
\<close>

theorem shouldAutoClose_boundary:
  "shouldAutoClose pair (createFakeScopedLineTokens []) column
   \<and> (onTokenBoundary line column \<and> line \<noteq> [] \<longrightarrow>
        (\<exists>i. encloses line i column
           \<and> shouldAutoClose pair (createFakeScopedLineTokens line) column
               = (\<not> appearsIn (token_type (line ! i)) (notIn pair))))"
proof (intro conjI impI)
  show "shouldAutoClose pair (createFakeScopedLineTokens []) column"
    by (simp add: shouldAutoClose_def createFakeScopedLineTokens_def)
next
  assume h: "onTokenBoundary line column \<and> line \<noteq> []"
  then obtain k where k: "k \<le> length line" "column - 1 = startOffset line k"
    unfolding onTokenBoundary_iff by blast
  with startOffset_le_length[OF k(1)] have "column - 2 < startOffset line (length line)"
    by simp
  with h have "scanScope (createFakeScopedLineTokens line) (column - 2) \<noteq> None"
    by (simp add: createFakeScopedLineTokens_def scanScope_None)
  then obtain ty where ty: "scanScope (createFakeScopedLineTokens line) (column - 2) = Some ty"
    by blast
  then obtain i where "encloses line i column" "token_type (line ! i) = ty"
    using scanScope_encloses[of line column ty] by blast
  with ty show "\<exists>i. encloses line i column
           \<and> shouldAutoClose pair (createFakeScopedLineTokens line) column
               = (\<not> appearsIn (token_type (line ! i)) (notIn pair))"
    by (intro exI[of _ i]) (simp add: shouldAutoClose_def)
qed

theorem shouldAutoClose_boundary_witness:
  "onTokenBoundary interestingLine3 2 \<and> interestingLine3 \<noteq> []
   \<and> (\<exists>i. encloses interestingLine3 i 2
           \<and> shouldAutoClose bracePair (createFakeScopedLineTokens interestingLine3) 2
               = (\<not> appearsIn (token_type (interestingLine3 ! i)) (notIn bracePair)))"
proof -
  have b: "onTokenBoundary interestingLine3 2 \<and> interestingLine3 \<noteq> []"
    by (simp add: onTokenBoundary_def interestingLine3_def startOffset_def)
  with shouldAutoClose_boundary[where pair = bracePair and line = interestingLine3 and column = 2]
  show ?thesis by blast
qed

section \<open>The support object\<close>

lemma StandardAutoClosingPairConditional_same: "StandardAutoClosingPairConditional p = p"
  by (simp add: StandardAutoClosingPairConditional_def)

lemma map_StandardAutoClosingPairConditional: "map StandardAutoClosingPairConditional ps = ps"
  by (induction ps) (simp_all add: StandardAutoClosingPairConditional_same)

text \<open>
  C5. Precedence in the configuration: supplied \<^verbatim>\<open>autoClosingPairs\<close>, even an empty
  list, are the auto-closing pairs, whatever \<^verbatim>\<open>brackets\<close> holds; without
  \<^verbatim>\<open>autoClosingPairs\<close> every bracket pair becomes an auto-closing pair; without
  \<^verbatim>\<open>surroundingPairs\<close> the surrounding pairs are the auto-closing pairs; supplied
  \<^verbatim>\<open>surroundingPairs\<close>, even an empty list, are returned as given.
\<close>

theorem configuration_precedence:
  "(autoClosingPairs config = Some ps \<longrightarrow>
      getAutoClosingPairs (new_CharacterPairSupport config) = ps)
   \<and> (autoClosingPairs config = None \<and> brackets config = Some bs \<longrightarrow>
        getAutoClosingPairs (new_CharacterPairSupport config)
          = map (\<lambda>b. \<lparr>pair_open = fst b, pair_close = snd b, notIn = None\<rparr>) bs)
   \<and> (surroundingPairs config = None \<longrightarrow>
        getSurroundingPairs (new_CharacterPairSupport config)
          = getAutoClosingPairs (new_CharacterPairSupport config))
   \<and> (surroundingPairs config = Some sp \<longrightarrow>
        getSurroundingPairs (new_CharacterPairSupport config) = sp)"
  by (simp add: new_CharacterPairSupport_def getAutoClosingPairs_def getSurroundingPairs_def
      map_StandardAutoClosingPairConditional StandardAutoClosingPairConditional_same Let_def)

theorem configuration_precedence_witness:
  "autoClosingPairs (noConfig\<lparr>autoClosingPairs := Some [], brackets := Some [(''a'', ''b'')]\<rparr>)
     = Some []
   \<and> getAutoClosingPairs (new_CharacterPairSupport
        (noConfig\<lparr>autoClosingPairs := Some [], brackets := Some [(''a'', ''b'')]\<rparr>)) = []
   \<and> autoClosingPairs (noConfig\<lparr>brackets := Some [(''a'', ''b'')]\<rparr>) = None
   \<and> brackets (noConfig\<lparr>brackets := Some [(''a'', ''b'')]\<rparr>) = Some [(''a'', ''b'')]
   \<and> getAutoClosingPairs (new_CharacterPairSupport (noConfig\<lparr>brackets := Some [(''a'', ''b'')]\<rparr>))
       = [abPair]
   \<and> surroundingPairs (noConfig\<lparr>brackets := Some [(''a'', ''b'')]\<rparr>) = None
   \<and> getSurroundingPairs (new_CharacterPairSupport (noConfig\<lparr>brackets := Some [(''a'', ''b'')]\<rparr>))
       = [abPair]
   \<and> surroundingPairs (noConfig\<lparr>surroundingPairs := Some []\<rparr>) = Some []
   \<and> getSurroundingPairs (new_CharacterPairSupport (noConfig\<lparr>surroundingPairs := Some []\<rparr>)) = []"
  using
    configuration_precedence[of
      "noConfig\<lparr>autoClosingPairs := Some [], brackets := Some [(''a'', ''b'')]\<rparr>" "[]" "[]" "[]"]
    configuration_precedence[of
      "noConfig\<lparr>brackets := Some [(''a'', ''b'')]\<rparr>" "[]" "[(''a'', ''b'')]" "[]"]
    configuration_precedence[of "noConfig\<lparr>surroundingPairs := Some []\<rparr>" "[]" "[]" "[]"]
  by (simp add: noConfig_def abPair_def)


section \<open>The workspace tree\<close>

lemmas project_defs = project1_def project2_def project3_def project4_def

subsection \<open>The loop over the projects\<close>

text \<open>
  One round adds the items of its project, and nothing else, to the items; it raises
  exactly when what is raised for the project is \<^verbatim>\<open>null\<close> or \<^verbatim>\<open>undefined\<close>.
\<close>

lemma treeItems_loopBody:
  "treeItems (snd (loopBody h st p)) = treeItems st @ projectItems h p"
  by (simp add: loopBody_def projectItems_def caught_def Let_def
      split: sum.splits option.splits)

lemma unknownProjects_loopBody:
  "unknownProjects (snd (loopBody h st p))
     = unknownProjects st @ (if hasNoProvider h p then [path p] else [])"
  by (simp add: loopBody_def hasNoProvider_def caught_def Let_def
      split: sum.splits option.splits)

lemma errorCount_loopBody:
  "errorCount (snd (loopBody h st p)) = errorCount st + (if failsToLoad h p then 1 else 0)"
  by (simp add: loopBody_def failsToLoad_def raisedFor_def caught_def Let_def
      split: sum.splits option.splits)

lemma caught_raises: "fst (caught e st) = (if e = Nullish then Some TypeError else None)"
  by (cases e) (simp_all add: caught_def Let_def)

lemma loopBody_raises:
  "fst (loopBody h st p) = (if raisedFor h p = Some Nullish then Some TypeError else None)"
  by (simp add: loopBody_def raisedFor_def caught_raises Let_def
      split: sum.splits option.splits)

text \<open>A loop that does not raise has made every round.\<close>

lemma projectsLoop_step:
  assumes "fst (projectsLoop h st (p # ps)) = None"
  shows "projectsLoop h st (p # ps) = projectsLoop h (snd (loopBody h st p)) ps"
    and "fst (projectsLoop h (snd (loopBody h st p)) ps) = None"
proof -
  obtain r st' where body: "loopBody h st p = (r, st')" by (cases "loopBody h st p")
  have "r = None"
  proof (cases r)
    case None
    then show ?thesis .
  next
    case (Some e)
    with body have "fst (projectsLoop h st (p # ps)) = Some e" by simp
    with assms show ?thesis by simp
  qed
  with body show "projectsLoop h st (p # ps) = projectsLoop h (snd (loopBody h st p)) ps"
    by simp
  with assms show "fst (projectsLoop h (snd (loopBody h st p)) ps) = None" by simp
qed

lemma treeItems_projectsLoop:
  "fst (projectsLoop h st ps) = None \<Longrightarrow>
   treeItems (snd (projectsLoop h st ps)) = treeItems st @ concat (map (projectItems h) ps)"
proof (induction ps arbitrary: st)
  case Nil
  show ?case by simp
next
  case (Cons p ps)
  from projectsLoop_step[OF Cons.prems] Cons.IH[of "snd (loopBody h st p)"]
  show ?case by (simp add: treeItems_loopBody)
qed

lemma unknownProjects_projectsLoop:
  "fst (projectsLoop h st ps) = None \<Longrightarrow>
   unknownProjects (snd (projectsLoop h st ps))
     = unknownProjects st @ map path (filter (hasNoProvider h) ps)"
proof (induction ps arbitrary: st)
  case Nil
  show ?case by simp
next
  case (Cons p ps)
  from projectsLoop_step[OF Cons.prems] Cons.IH[of "snd (loopBody h st p)"]
  show ?case by (simp add: unknownProjects_loopBody)
qed

lemma errorCount_projectsLoop:
  "fst (projectsLoop h st ps) = None \<Longrightarrow>
   errorCount (snd (projectsLoop h st ps)) = errorCount st + length (filter (failsToLoad h) ps)"
proof (induction ps arbitrary: st)
  case Nil
  show ?case by simp
next
  case (Cons p ps)
  from projectsLoop_step[OF Cons.prems] Cons.IH[of "snd (loopBody h st p)"]
  show ?case by (simp add: errorCount_loopBody)
qed

text \<open>The loop does not raise when nothing that is raised for a project is nullish.\<close>

lemma projectsLoop_completes:
  "list_all (\<lambda>p. raisedFor h p \<noteq> Some Nullish) ps \<Longrightarrow> fst (projectsLoop h st ps) = None"
proof (induction ps arbitrary: st)
  case Nil
  show ?case by simp
next
  case (Cons p ps)
  obtain r st' where body: "loopBody h st p = (r, st')" by (cases "loopBody h st p")
  from Cons.prems loopBody_raises[of h st p] body have "r = None" by simp
  with body Cons.IH[of st'] Cons.prems show ?case by simp
qed

lemma getChildren_root_returns:
  assumes "fst (getChildren h None) = Inr items"
    and "getProjectsInWorkspace h False = Inr ps"
  shows "items = concat (map (projectItems h) ps)"
proof -
  obtain r st where loop: "projectsLoop h (beforeLoop ps) ps = (r, st)"
    by (cases "projectsLoop h (beforeLoop ps) ps")
  from assms loop have r: "r = None" and items: "items = treeItems st"
    by (auto simp: getChildren_def split: option.splits)
  from loop r have "fst (projectsLoop h (beforeLoop ps) ps) = None" by simp
  from treeItems_projectsLoop[OF this] loop items show ?thesis
    by (simp add: beforeLoop_def)
qed

lemma demo_projectItems:
  "projectItems demoHost project1
     = [\<lparr>treeDataProvider = 10, element = 1\<rparr>, \<lparr>treeDataProvider = 10, element = 2\<rparr>]"
  "projectItems demoHost project2 = []"
  "projectItems demoHost project3 = []"
  "projectItems demoHost project4 = [\<lparr>treeDataProvider = 40, element = 3\<rparr>]"
  by (simp_all add: projectItems_def demoHost_def project_defs)

lemma demo_raisedFor:
  "raisedFor demoHost project1 = None"
  "raisedFor demoHost project2 = None"
  "raisedFor demoHost project3 = Some (Error ''cannot load'')"
  "raisedFor demoHost project4 = None"
  by (simp_all add: raisedFor_def demoHost_def project_defs)

lemma demo_loads: "loads demoHost [project1, project2, project3, project4]"
  by (simp add: loads_def demo_raisedFor) (simp add: demoHost_def)

text \<open>
  C6 does not hold as it is stated. Where the workspace service raises instead of
  giving the project list, the call raises and returns no items: the awaited call is
  outside the \<^verbatim>\<open>try\<close>. And where a call for a project raises \<^verbatim>\<open>undefined\<close>, the handler
  raises on \<^verbatim>\<open>e.message\<close>, so the fourth project of the workspace, which has an item,
  is not processed.
\<close>

theorem getChildren_root_counterexample:
  "fst (getChildren offlineHost None) = Inl (Error ''workspace not available'')
   \<and> fst (getChildren rejectingHost None) = Inl TypeError
   \<and> projectItems rejectingHost project4 = [\<lparr>treeDataProvider = 40, element = 3\<rparr>]"
  by (simp add: getChildren_def offlineHost_def rejectingHost_def demoHost_def project_defs
      beforeLoop_def loopBody_def caught_def projectItems_def incrementProjectTypeMetric_def
      Let_def)

text \<open>
  C6, amended. Let the workspace load: the workspace service returns the project list,
  the context key is set, and no call made for a project raises \<^verbatim>\<open>null\<close> or
  \<^verbatim>\<open>undefined\<close>. Then \<^verbatim>\<open>getChildren\<close>, called without an element, returns the
  concatenation, in the order of the projects, of the children that each project's own
  tree data provider produces, each paired with that provider; the paths of the projects
  without a project provider are recorded as unknown, in order, and the projects for
  which a call raises are counted as errors, while all the other projects are processed.
  A project of either kind contributes no item. Where the workspace service or the
  command that sets the context key raises, the call raises the same value.
\<close>

theorem getChildren_root:
  "(loads h ps \<longrightarrow>
      fst (getChildren h None) = Inr (concat (map (projectItems h) ps))
      \<and> snd (getChildren h None) = afterLoop ps (snd (projectsLoop h (beforeLoop ps) ps))
      \<and> unknownProjects (snd (projectsLoop h (beforeLoop ps) ps))
          = map path (filter (hasNoProvider h) ps)
      \<and> errorCount (snd (projectsLoop h (beforeLoop ps) ps))
          = length (filter (failsToLoad h) ps))
   \<and> (hasNoProvider h p \<longrightarrow> projectItems h p = [])
   \<and> (failsToLoad h p \<longrightarrow> projectItems h p = [])
   \<and> (getProjectsInWorkspace h False = Inl e \<longrightarrow> fst (getChildren h None) = Inl e)
   \<and> (getProjectsInWorkspace h False = Inr ps
        \<and> setContext h ''isProjectsViewEmpty'' (length ps = 0) = Some e \<longrightarrow>
        fst (getChildren h None) = Inl e)"
proof (intro conjI impI)
  assume l: "loads h ps"
  obtain r st where loop: "projectsLoop h (beforeLoop ps) ps = (r, st)"
    by (cases "projectsLoop h (beforeLoop ps) ps")
  from l have "list_all (\<lambda>p. raisedFor h p \<noteq> Some Nullish) ps" by (simp add: loads_def)
  from projectsLoop_completes[OF this, of "beforeLoop ps"]
  have fin: "fst (projectsLoop h (beforeLoop ps) ps) = None" .
  with loop have r: "r = None" by simp
  from l loop r show "snd (getChildren h None)
      = afterLoop ps (snd (projectsLoop h (beforeLoop ps) ps))"
    by (simp add: getChildren_def loads_def)
  from l loop r have "fst (getChildren h None) = Inr (treeItems st)"
    by (simp add: getChildren_def loads_def)
  with treeItems_projectsLoop[OF fin] loop
  show "fst (getChildren h None) = Inr (concat (map (projectItems h) ps))"
    by (simp add: beforeLoop_def)
  from unknownProjects_projectsLoop[OF fin]
  show "unknownProjects (snd (projectsLoop h (beforeLoop ps) ps))
          = map path (filter (hasNoProvider h) ps)"
    by (simp add: beforeLoop_def)
  from errorCount_projectsLoop[OF fin]
  show "errorCount (snd (projectsLoop h (beforeLoop ps) ps))
          = length (filter (failsToLoad h) ps)"
    by (simp add: beforeLoop_def)
next
  assume "hasNoProvider h p"
  then show "projectItems h p = []"
    by (simp add: hasNoProvider_def projectItems_def)
next
  assume "failsToLoad h p"
  then show "projectItems h p = []"
    by (auto simp: failsToLoad_def raisedFor_def projectItems_def
        split: sum.splits option.splits)
next
  assume "getProjectsInWorkspace h False = Inl e"
  then show "fst (getChildren h None) = Inl e"
    by (simp add: getChildren_def)
next
  assume "getProjectsInWorkspace h False = Inr ps
        \<and> setContext h ''isProjectsViewEmpty'' (length ps = 0) = Some e"
  then show "fst (getChildren h None) = Inl e"
    by (simp add: getChildren_def)
qed

theorem getChildren_root_witness:
  "loads demoHost [project1, project2, project3, project4]
   \<and> fst (getChildren demoHost None)
       = Inr [\<lparr>treeDataProvider = 10, element = 1\<rparr>, \<lparr>treeDataProvider = 10, element = 2\<rparr>,
              \<lparr>treeDataProvider = 40, element = 3\<rparr>]
   \<and> unknownProjects
         (snd (projectsLoop demoHost (beforeLoop [project1, project2, project3, project4])
                 [project1, project2, project3, project4]))
       = [''/w/two.xyz'']
   \<and> errorCount
         (snd (projectsLoop demoHost (beforeLoop [project1, project2, project3, project4])
                 [project1, project2, project3, project4]))
       = 1
   \<and> hasNoProvider demoHost project2 \<and> projectItems demoHost project2 = []
   \<and> failsToLoad demoHost project3 \<and> projectItems demoHost project3 = []
   \<and> getProjectsInWorkspace offlineHost False = Inl (Error ''workspace not available'')
   \<and> fst (getChildren offlineHost None) = Inl (Error ''workspace not available'')
   \<and> getProjectsInWorkspace lockedHost False = Inr [project1, project2, project3, project4]
   \<and> setContext lockedHost ''isProjectsViewEmpty''
         (length [project1, project2, project3, project4] = 0) = Some (Error ''command failed'')
   \<and> fst (getChildren lockedHost None) = Inl (Error ''command failed'')"
proof -
  let ?ps = "[project1, project2, project3, project4]"
  have n: "hasNoProvider demoHost project2" "\<not> hasNoProvider demoHost project1"
    "\<not> hasNoProvider demoHost project3" "\<not> hasNoProvider demoHost project4"
    by (simp_all add: hasNoProvider_def demoHost_def project_defs)
  have f: "failsToLoad demoHost project3" "\<not> failsToLoad demoHost project1"
    "\<not> failsToLoad demoHost project2" "\<not> failsToLoad demoHost project4"
    by (simp_all add: failsToLoad_def demo_raisedFor)
  have p2: "path project2 = ''/w/two.xyz''" by (simp add: project2_def)
  have off: "getProjectsInWorkspace offlineHost False = Inl (Error ''workspace not available'')"
    by (simp add: offlineHost_def)
  have locked: "getProjectsInWorkspace lockedHost False = Inr ?ps"
    "setContext lockedHost ''isProjectsViewEmpty'' (length ?ps = 0) = Some (Error ''command failed'')"
    by (simp_all add: lockedHost_def demoHost_def)
  from n f p2 demo_loads off locked
    getChildren_root[of lockedHost ?ps project2 "Error ''command failed''"]
    getChildren_root[of demoHost ?ps project2]
    getChildren_root[of demoHost ?ps project3]
    getChildren_root[of offlineHost ?ps project2 "Error ''workspace not available''"]
  show ?thesis by (simp add: demo_projectItems)
qed

subsection \<open>The children of an element\<close>





subsection \<open>Refresh and drop\<close>

text \<open>
  C8 does not hold as it is stated. Where the workspace service raises on the reload,
  \<^verbatim>\<open>refresh\<close> raises after the reload call and the event is not fired.
\<close>

theorem refresh_reloads_then_fires_counterexample:
  "refresh offlineHost
     = (Some (Error ''workspace not available''),
        [LoggerLog ''Refreshing projects tree'', CallGetProjectsInWorkspace True])
   \<and> FireOnDidChangeTreeData None \<notin> set (snd (refresh offlineHost))"
  by (simp add: refresh_def offlineHost_def)

text \<open>
  C8, amended. Every call of \<^verbatim>\<open>refresh\<close> first reloads the projects of the workspace,
  by a call of \<^verbatim>\<open>getProjectsInWorkspace\<close> with the reload flag set. When the reload
  completes, \<^verbatim>\<open>refresh\<close> then fires the event \<^verbatim>\<open>onDidChangeTreeData\<close> without an element,
  that is for the whole tree, and does nothing else. When the reload raises, \<^verbatim>\<open>refresh\<close>
  raises the same value and fires nothing. The provider keeps no tree items: the items
  that a call of \<^verbatim>\<open>getChildren\<close> for the root returns are built in that call from the
  project list and the children of the projects' providers, so that they are rebuilt after
  every refresh and not reused.
\<close>

theorem refresh_reloads_then_fires:
  "(getProjectsInWorkspace h True = Inr ps \<longrightarrow>
      refresh h = (None, [LoggerLog ''Refreshing projects tree'',
                          CallGetProjectsInWorkspace True, FireOnDidChangeTreeData None]))
   \<and> (getProjectsInWorkspace h True = Inl e \<longrightarrow>
        refresh h = (Some e, [LoggerLog ''Refreshing projects tree'',
                              CallGetProjectsInWorkspace True]))
   \<and> (fst (getChildren h None) = Inr items \<and> getProjectsInWorkspace h False = Inr qs \<longrightarrow>
        items = concat (map (projectItems h) qs))"
proof (intro conjI impI)
  assume "getProjectsInWorkspace h True = Inr ps"
  then show "refresh h = (None, [LoggerLog ''Refreshing projects tree'',
                          CallGetProjectsInWorkspace True, FireOnDidChangeTreeData None])"
    by (simp add: refresh_def)
next
  assume "getProjectsInWorkspace h True = Inl e"
  then show "refresh h = (Some e, [LoggerLog ''Refreshing projects tree'',
                              CallGetProjectsInWorkspace True])"
    by (simp add: refresh_def)
next
  assume "fst (getChildren h None) = Inr items \<and> getProjectsInWorkspace h False = Inr qs"
  then show "items = concat (map (projectItems h) qs)"
    using getChildren_root_returns[of h items qs] by simp
qed

theorem refresh_reloads_then_fires_witness:
  "getProjectsInWorkspace demoHost True = Inr [project1, project2, project3, project4]
   \<and> refresh demoHost
       = (None, [LoggerLog ''Refreshing projects tree'', CallGetProjectsInWorkspace True,
                 FireOnDidChangeTreeData None])
   \<and> getProjectsInWorkspace offlineHost True = Inl (Error ''workspace not available'')
   \<and> refresh offlineHost
       = (Some (Error ''workspace not available''),
          [LoggerLog ''Refreshing projects tree'', CallGetProjectsInWorkspace True])
   \<and> getProjectsInWorkspace demoHost False = Inr [project1, project2, project3, project4]
   \<and> fst (getChildren demoHost None)
       = Inr [\<lparr>treeDataProvider = 10, element = 1\<rparr>, \<lparr>treeDataProvider = 10, element = 2\<rparr>,
              \<lparr>treeDataProvider = 40, element = 3\<rparr>]
   \<and> concat (map (projectItems demoHost) [project1, project2, project3, project4])
       = [\<lparr>treeDataProvider = 10, element = 1\<rparr>, \<lparr>treeDataProvider = 10, element = 2\<rparr>,
          \<lparr>treeDataProvider = 40, element = 3\<rparr>]"
proof -
  let ?ps = "[project1, project2, project3, project4]"
  let ?items = "[\<lparr>treeDataProvider = 10::nat, element = 1::nat\<rparr>,
                 \<lparr>treeDataProvider = 10, element = 2\<rparr>, \<lparr>treeDataProvider = 40, element = 3\<rparr>]"
  have on: "getProjectsInWorkspace demoHost True = Inr ?ps"
    "getProjectsInWorkspace demoHost False = Inr ?ps"
    by (simp_all add: demoHost_def)
  have off: "getProjectsInWorkspace offlineHost True = Inl (Error ''workspace not available'')"
    by (simp add: offlineHost_def)
  have items: "fst (getChildren demoHost None) = Inr ?items"
    by (simp add: getChildren_def demoHost_def project_defs beforeLoop_def loopBody_def
        caught_def incrementProjectTypeMetric_def Let_def)
  from on off items
    refresh_reloads_then_fires[of demoHost ?ps "Error ''x''" ?items ?ps]
    refresh_reloads_then_fires[of offlineHost ?ps "Error ''workspace not available''" ?items ?ps]
  show ?thesis by (simp add: demo_projectItems)
qed

lemma movesNothing_simps:
  "movesNothing []"
  "movesNothing [ShowErrorMessage m]"
  by (simp_all add: movesNothing_def)

lemma not_movesNothing_move: "\<not> movesNothing (MoveFile pp uri el tgt # effs)"
  by (simp add: movesNothing_def)

text \<open>
  C9. \<^verbatim>\<open>handleDrop\<close> returns without a move and without a refresh when the target is
  undefined, when the transfer carries more than one item, when the dragged item has no
  \<^verbatim>\<open>projectFileUri\<close>, when no project provider is found for it, and when the provider
  does not support drag and drop or has no \<^verbatim>\<open>moveFile\<close>. A move or a refresh happens
  only when all these checks pass, and then it is the move, followed by the refresh where
  the move completes.
\<close>

theorem handleDrop_failure_paths:
  "handleDrop h None sources = (None, [])
   \<and> (length val > 1 \<longrightarrow>
        fst (handleDrop h target (Some val)) = None
        \<and> movesNothing (snd (handleDrop h target (Some val))))
   \<and> (projectFileUri h dragged = None \<longrightarrow>
        fst (handleDrop h target (Some (dragged # others))) = None
        \<and> movesNothing (snd (handleDrop h target (Some (dragged # others)))))
   \<and> (projectFileUri h dragged = Some uri \<and> getProjectProvider h uri = Inr None \<longrightarrow>
        fst (handleDrop h target (Some (dragged # others))) = None
        \<and> movesNothing (snd (handleDrop h target (Some (dragged # others)))))
   \<and> (projectFileUri h dragged = Some uri \<and> getProjectProvider h uri = Inr (Some pp)
        \<and> (\<not> supportsDragAndDrop h pp \<or> \<not> hasMoveFile h pp) \<longrightarrow>
        fst (handleDrop h target (Some (dragged # others))) = None
        \<and> movesNothing (snd (handleDrop h target (Some (dragged # others)))))
   \<and> (\<not> movesNothing (snd (handleDrop h target sources)) \<longrightarrow>
        (\<exists>tgt el u p. target = Some tgt \<and> sources = Some [el]
           \<and> projectFileUri h el = Some u \<and> getProjectProvider h u = Inr (Some p)
           \<and> supportsDragAndDrop h p \<and> hasMoveFile h p
           \<and> handleDrop h target sources
               = (case moveFile h p u el tgt of
                    None \<Rightarrow> (None, MoveFile p u el tgt # snd (refresh h))
                  | Some e \<Rightarrow> (Some e, [MoveFile p u el tgt]))))"
proof (intro conjI impI)
  show "handleDrop h None sources = (None, [])"
    by (simp add: handleDrop_def)
next
  assume "length val > 1"
  then show "fst (handleDrop h target (Some val)) = None"
    and "movesNothing (snd (handleDrop h target (Some val)))"
    by (simp_all add: handleDrop_def movesNothing_simps split: option.splits)
next
  assume "projectFileUri h dragged = None"
  then show "fst (handleDrop h target (Some (dragged # others))) = None"
    and "movesNothing (snd (handleDrop h target (Some (dragged # others))))"
    by (simp_all add: handleDrop_def movesNothing_simps split: option.splits)
next
  assume "projectFileUri h dragged = Some uri \<and> getProjectProvider h uri = Inr None"
  then show "fst (handleDrop h target (Some (dragged # others))) = None"
    and "movesNothing (snd (handleDrop h target (Some (dragged # others))))"
    by (simp_all add: handleDrop_def movesNothing_simps split: option.splits)
next
  assume "projectFileUri h dragged = Some uri \<and> getProjectProvider h uri = Inr (Some pp)
        \<and> (\<not> supportsDragAndDrop h pp \<or> \<not> hasMoveFile h pp)"
  then show "fst (handleDrop h target (Some (dragged # others))) = None"
    and "movesNothing (snd (handleDrop h target (Some (dragged # others))))"
    by (auto simp: handleDrop_def movesNothing_simps split: option.splits)
next
  assume moved: "\<not> movesNothing (snd (handleDrop h target sources))"
  show "\<exists>tgt el u p. target = Some tgt \<and> sources = Some [el]
           \<and> projectFileUri h el = Some u \<and> getProjectProvider h u = Inr (Some p)
           \<and> supportsDragAndDrop h p \<and> hasMoveFile h p
           \<and> handleDrop h target sources
               = (case moveFile h p u el tgt of
                    None \<Rightarrow> (None, MoveFile p u el tgt # snd (refresh h))
                  | Some e \<Rightarrow> (Some e, [MoveFile p u el tgt]))"
  proof (cases target)
    case None
    with moved show ?thesis by (simp add: handleDrop_def movesNothing_simps)
  next
    case (Some tgt)
    show ?thesis
    proof (cases sources)
      case None
      with moved Some show ?thesis by (simp add: handleDrop_def movesNothing_simps)
    next
      case val: (Some val)
      show ?thesis
      proof (cases val)
        case Nil
        with moved Some val show ?thesis by (simp add: handleDrop_def movesNothing_simps)
      next
        case (Cons el rest)
        have rest: "rest = []"
        proof (rule ccontr)
          assume "rest \<noteq> []"
          with moved Some val Cons show False
            by (simp add: handleDrop_def movesNothing_simps)
        qed
        from moved Some val Cons rest show ?thesis
          by (auto simp: handleDrop_def movesNothing_simps
              split: option.splits sum.splits if_splits)
      qed
    qed
  qed
qed

theorem handleDrop_failure_paths_witness:
  "length [11, 12 :: nat] > 1
   \<and> handleDrop demoHost (Some dropTarget) (Some [11, 12])
       = (None, [ShowErrorMessage onlyMovingOneFileIsSupported])
   \<and> projectFileUri demoHost 1 = None
   \<and> handleDrop demoHost (Some dropTarget) (Some [1]) = (None, [])
   \<and> projectFileUri demoHost 12 = Some project2 \<and> getProjectProvider demoHost project2 = Inr None
   \<and> handleDrop demoHost (Some dropTarget) (Some [12]) = (None, [])
   \<and> projectFileUri demoHost 3 = Some project4 \<and> getProjectProvider demoHost project4 = Inr (Some 4)
   \<and> \<not> supportsDragAndDrop demoHost 4
   \<and> handleDrop demoHost (Some dropTarget) (Some [3])
       = (None, [ShowErrorMessage dragAndDropNotSupported])
   \<and> \<not> movesNothing (snd (handleDrop demoHost (Some dropTarget) (Some [11])))
   \<and> handleDrop demoHost (Some dropTarget) (Some [11])
       = (None, MoveFile 1 project1 11 dropTarget # snd (refresh demoHost))
   \<and> \<not> movesNothing (snd (handleDrop readOnlyHost (Some dropTarget) (Some [11])))
   \<and> handleDrop readOnlyHost (Some dropTarget) (Some [11])
       = (Some (Error ''read only''), [MoveFile 1 project1 11 dropTarget])"
proof -
  let ?tgt = "Some dropTarget"
  have facts: "projectFileUri demoHost 1 = None"
    "projectFileUri demoHost 12 = Some project2" "getProjectProvider demoHost project2 = Inr None"
    "projectFileUri demoHost 3 = Some project4" "getProjectProvider demoHost project4 = Inr (Some 4)"
    "\<not> supportsDragAndDrop demoHost 4"
    by (simp_all add: demoHost_def project_defs)
  have moved: "handleDrop demoHost ?tgt (Some [11])
       = (None, MoveFile 1 project1 11 dropTarget # snd (refresh demoHost))"
    by (simp add: handleDrop_def refresh_def demoHost_def project_defs)
  have failed: "handleDrop readOnlyHost ?tgt (Some [11])
       = (Some (Error ''read only''), [MoveFile 1 project1 11 dropTarget])"
    by (simp add: handleDrop_def readOnlyHost_def demoHost_def project_defs)
  have others: "handleDrop demoHost ?tgt (Some [11, 12])
       = (None, [ShowErrorMessage onlyMovingOneFileIsSupported])"
    "handleDrop demoHost ?tgt (Some [1]) = (None, [])"
    "handleDrop demoHost ?tgt (Some [12]) = (None, [])"
    "handleDrop demoHost ?tgt (Some [3]) = (None, [ShowErrorMessage dragAndDropNotSupported])"
    by (simp_all add: handleDrop_def demoHost_def project_defs)
  have nm: "\<not> movesNothing (snd (handleDrop demoHost ?tgt (Some [11])))"
    "\<not> movesNothing (snd (handleDrop readOnlyHost ?tgt (Some [11])))"
    by (simp_all add: moved failed not_movesNothing_move)
  from facts moved failed others nm
    handleDrop_failure_paths[where h = demoHost and target = "?tgt" and sources = "Some [11]"
      and val = "[11, 12]" and dragged = 3 and others = "[]" and uri = project4 and pp = 4]
    handleDrop_failure_paths[where h = readOnlyHost and target = "?tgt" and sources = "Some [11]"
      and val = "[11, 12]" and dragged = 3 and others = "[]" and uri = project4 and pp = 4]
  show ?thesis by simp
qed

section \<open>The viewer\<close>

text \<open>
  C10. In every state of a \<^verbatim>\<open>LongTextViewer\<close>, and so in every state reached from
  \<^verbatim>\<open>init\<close> by calls of its methods, \<^verbatim>\<open>isValueChanged()\<close> returns false,
  \<^verbatim>\<open>serializeValue()\<close> returns the empty string and \<^verbatim>\<open>validate()\<close> returns
  \<^verbatim>\<open>{ valid: true, msg: null }\<close>.
\<close>

theorem viewer_never_edits:
  "isValueChanged viewer = False
   \<and> serializeValue viewer = ''''
   \<and> validate viewer = \<lparr>valid = True, msg = None\<rparr>
   \<and> isValueChanged (viewer_after pos calls) = False
   \<and> serializeValue (viewer_after pos calls) = ''''
   \<and> validate (viewer_after pos calls) = \<lparr>valid = True, msg = None\<rparr>"
  by (simp add: isValueChanged_def serializeValue_def validate_def)

end
